theory Spec2Isabelle
  imports Main
begin

section \<open>Modal state helper (hooks/useModalState.tsx)\<close>

text \<open>
  The hook holds one boolean, initially \<open>false\<close>, and hands out three callbacks.
  \<open>open\<close> and \<open>close\<close> store a constant, \<open>toggle\<close> uses the functional updater
  \<open>prev => !prev\<close>.  The callbacks are modelled as functions on the hook's state.
\<close>

record modal_state =
  isOpen :: bool

definition useModalState :: modal_state where
  "useModalState = \<lparr>isOpen = False\<rparr>"

definition modal_open :: "modal_state \<Rightarrow> modal_state" where
  "modal_open m = m\<lparr>isOpen := True\<rparr>"

definition modal_close :: "modal_state \<Rightarrow> modal_state" where
  "modal_close m = m\<lparr>isOpen := False\<rparr>"

definition modal_toggle :: "modal_state \<Rightarrow> modal_state" where
  "modal_toggle m = m\<lparr>isOpen := \<not> isOpen m\<rparr>"

section \<open>Data model (types/track.ts)\<close>

text \<open>
  \<open>TrackCardProps\<close>, the shape of a row of the list.  The field \<open>id\<close> is called
  \<open>track_id\<close> here; \<open>audioFile\<close> is optional in the source.
\<close>

record track =
  track_id :: string
  title :: string
  artist :: string
  album :: string
  genres :: "string list"
  coverImage :: string
  audioFile :: "string option"
  createdAt :: string

text \<open>
  JavaScript truthiness of an optional string, as used by \<open>!audioFile\<close> and
  \<open>isPlaying && audioFile\<close>: \<open>undefined\<close> and the empty string are falsy.
\<close>

definition truthy :: "string option \<Rightarrow> bool" where
  "truthy v = (case v of None \<Rightarrow> False | Some x \<Rightarrow> x \<noteq> [])"

section \<open>API client (services/api.ts)\<close>

text \<open>
  The HTTP collaborator is outside the program.  Each client function takes the outcome of
  its axios call as an argument: \<open>Inl\<close> a thrown value, \<open>Inr\<close> the payload.  What the
  function does with a rejection (rethrow, or catch and log) is the function's body.
\<close>

datatype thrown = JsError string | NonError

record meta =
  total_meta :: int
  totalPages :: int

record tracks_response =
  data :: "track list"
  meta :: meta

definition getTracks :: "thrown + tracks_response \<Rightarrow> thrown + tracks_response" where
  "getTracks response = (case response of Inl e \<Rightarrow> Inl e | Inr d \<Rightarrow> Inr d)"

definition getGenres :: "thrown + string list \<Rightarrow> thrown + string list" where
  "getGenres response = (case response of Inl e \<Rightarrow> Inl e | Inr d \<Rightarrow> Inr d)"

definition deleteTrack :: "string \<Rightarrow> thrown + unit \<Rightarrow> thrown + unit" where
  "deleteTrack i response = response"

definition deleteTracks :: "string list \<Rightarrow> thrown + unit \<Rightarrow> thrown + unit" where
  "deleteTracks ids response = (case response of Inl e \<Rightarrow> Inr () | Inr u \<Rightarrow> Inr ())"

section \<open>Track row (components/Track.tsx)\<close>

text \<open>
  The play button carries \<open>disabled={!audioFile}\<close> and calls \<open>onPlay(id)\<close>; the audio
  player is rendered under \<open>isPlaying && audioFile\<close>.
\<close>

definition play_disabled :: "track \<Rightarrow> bool" where
  "play_disabled t = (\<not> truthy (audioFile t))"

definition player_rendered :: "bool \<Rightarrow> track \<Rightarrow> bool" where
  "player_rendered isPlaying t = (isPlaying \<and> truthy (audioFile t))"

section \<open>Track list controller (components/TracksList.tsx)\<close>

subsection \<open>State\<close>

record params =
  search :: string
  sort_param :: string
  order_param :: string
  genre :: string
  artist_param :: string
  page :: int
  limit :: int
  totalPages_param :: int

text \<open>\<open>Partial<typeof params>\<close>: every field may be absent.\<close>

record partial_params =
  search_opt :: "string option"
  sort_opt :: "string option"
  order_opt :: "string option"
  genre_opt :: "string option"
  artist_opt :: "string option"
  page_opt :: "int option"
  limit_opt :: "int option"
  totalPages_opt :: "int option"

text \<open>The object spread \<open>{ ...prev, ...newParams }\<close>.\<close>

definition spread :: "params \<Rightarrow> partial_params \<Rightarrow> params" where
  "spread prev newParams =
     \<lparr>search = (case search_opt newParams of None \<Rightarrow> search prev | Some v \<Rightarrow> v),
      sort_param = (case sort_opt newParams of None \<Rightarrow> sort_param prev | Some v \<Rightarrow> v),
      order_param = (case order_opt newParams of None \<Rightarrow> order_param prev | Some v \<Rightarrow> v),
      genre = (case genre_opt newParams of None \<Rightarrow> genre prev | Some v \<Rightarrow> v),
      artist_param = (case artist_opt newParams of None \<Rightarrow> artist_param prev | Some v \<Rightarrow> v),
      page = (case page_opt newParams of None \<Rightarrow> page prev | Some v \<Rightarrow> v),
      limit = (case limit_opt newParams of None \<Rightarrow> limit prev | Some v \<Rightarrow> v),
      totalPages_param =
        (case totalPages_opt newParams of None \<Rightarrow> totalPages_param prev | Some v \<Rightarrow> v)\<rparr>"

text \<open>
  The closure stored by \<open>setConfirmAction\<close>, with the variables of the render it was
  created in: the single delete closes over \<open>id\<close> and \<open>selectedTrackIds\<close>, the bulk delete
  over \<open>tracks\<close>, \<open>selectedTrackIds\<close> and \<open>params\<close>.  \<open>Noop\<close> is the initial \<open>() => {}\<close>.
\<close>

datatype confirm_action =
    Noop
  | DeleteTrackAction string "string list"
  | BulkDeleteAction "track list" "string list" params

record state =
  tracks :: "track list"
  paginationMeta :: meta
  isLoading :: bool
  error :: "string option"
  selectedTrackIds :: "string list"
  isConfirmDialogOpen :: bool
  confirmAction :: confirm_action
  createModal :: modal_state
  editModal :: modal_state
  currentTrack :: "track option"
  playingTrackId :: "string option"
  params :: params
  genreOptions :: "string list"
  refreshTrigger :: int

definition initial_state :: state where
  "initial_state =
     \<lparr>tracks = [],
      paginationMeta = \<lparr>total_meta = 0, totalPages = 0\<rparr>,
      isLoading = False,
      error = None,
      selectedTrackIds = [],
      isConfirmDialogOpen = False,
      confirmAction = Noop,
      createModal = useModalState,
      editModal = useModalState,
      currentTrack = None,
      playingTrackId = None,
      params = \<lparr>search = [], sort_param = ''title'', order_param = ''asc'', genre = [],
                artist_param = [], page = 1, limit = 10, totalPages_param = 1\<rparr>,
      genreOptions = [],
      refreshTrigger = 0\<rparr>"

subsection \<open>Fetching the list\<close>

text \<open>
  \<open>fetchTracks\<close> runs in two parts, separated by the \<open>await\<close>: the part before the request
  and the part that handles its outcome.  \<open>data.meta.totalPages || 1\<close> replaces a falsy 0.
\<close>

definition fetchTracks_begin :: "state \<Rightarrow> state" where
  "fetchTracks_begin s = s\<lparr>isLoading := True, error := None\<rparr>"

definition fetchTracks_resolved :: "thrown + tracks_response \<Rightarrow> state \<Rightarrow> state" where
  "fetchTracks_resolved response s =
     (case getTracks response of
        Inr d \<Rightarrow>
          s\<lparr>tracks := data d,
            paginationMeta :=
              \<lparr>total_meta = total_meta (meta d),
               totalPages = (if totalPages (meta d) = 0 then 1 else totalPages (meta d))\<rparr>,
            isLoading := False\<rparr>
      | Inl err \<Rightarrow>
          s\<lparr>error := Some (case err of JsError msg \<Rightarrow> msg | NonError \<Rightarrow> ''Failed to fetch tracks''),
            tracks := [],
            isLoading := False\<rparr>)"

text \<open>
  \<open>fetchGenres\<close> changes nothing before its request; on success it stores the genres, on
  failure it only logs.
\<close>

definition fetchGenres_resolved :: "thrown + string list \<Rightarrow> state \<Rightarrow> state" where
  "fetchGenres_resolved response s =
     (case getGenres response of
        Inr genresData \<Rightarrow> s\<lparr>genreOptions := genresData\<rparr>
      | Inl err \<Rightarrow> s)"

subsection \<open>Handlers\<close>

definition handleSearchParams :: "partial_params \<Rightarrow> state \<Rightarrow> state" where
  "handleSearchParams newParams s = s\<lparr>params := (spread (params s) newParams)\<lparr>page := 1\<rparr>\<rparr>"

definition handlePageChange :: "int \<Rightarrow> state \<Rightarrow> state" where
  "handlePageChange newPage s = s\<lparr>params := (params s)\<lparr>page := newPage\<rparr>\<rparr>"

definition handleSelectTrack :: "string \<Rightarrow> state \<Rightarrow> state" where
  "handleSelectTrack i s =
     s\<lparr>selectedTrackIds :=
         (if i \<in> set (selectedTrackIds s)
          then filter (\<lambda>trackId. trackId \<noteq> i) (selectedTrackIds s)
          else selectedTrackIds s @ [i])\<rparr>"

definition handleSelectAll :: "state \<Rightarrow> state" where
  "handleSelectAll s =
     (if list_all (\<lambda>t. track_id t \<in> set (selectedTrackIds s)) (tracks s)
      then s\<lparr>selectedTrackIds := []\<rparr>
      else s\<lparr>selectedTrackIds := map track_id (tracks s)\<rparr>)"

definition handlePlayTrack :: "string \<Rightarrow> state \<Rightarrow> state" where
  "handlePlayTrack i s =
     (if Some i = playingTrackId s
      then s\<lparr>playingTrackId := None\<rparr>
      else s\<lparr>playingTrackId := Some i\<rparr>)"

text \<open>
  The two delete handlers only open the confirmation dialog and store a closure; the
  closure runs when the dialog's Delete button is pressed.
\<close>

definition handleDeleteTrack :: "string \<Rightarrow> state \<Rightarrow> state" where
  "handleDeleteTrack i s =
     s\<lparr>isConfirmDialogOpen := True,
       confirmAction := DeleteTrackAction i (selectedTrackIds s)\<rparr>"

definition handleBulkDelete :: "state \<Rightarrow> state" where
  "handleBulkDelete s =
     (if length (selectedTrackIds s) = 0 then s
      else s\<lparr>isConfirmDialogOpen := True,
             confirmAction := BulkDeleteAction (tracks s) (selectedTrackIds s) (params s)\<rparr>)"

text \<open>
  The body of the single-delete closure.  The three state updates before the \<open>await\<close> use
  functional updaters, so they act on the state at the time the closure runs; the test
  \<open>selectedTrackIds.includes(id)\<close> reads the captured list.
\<close>

definition deleteTrack_optimistic :: "string \<Rightarrow> string list \<Rightarrow> state \<Rightarrow> state" where
  "deleteTrack_optimistic i captured s =
     (let s1 = s\<lparr>tracks := filter (\<lambda>t. track_id t \<noteq> i) (tracks s)\<rparr>;
          s2 = s1\<lparr>paginationMeta :=
                    (paginationMeta s1)\<lparr>total_meta := max 0 (total_meta (paginationMeta s1) - 1)\<rparr>\<rparr>
      in if i \<in> set captured
         then s2\<lparr>selectedTrackIds := filter (\<lambda>trackId. trackId \<noteq> i) (selectedTrackIds s2)\<rparr>
         else s2)"

definition deleteTrack_settled :: "thrown + unit \<Rightarrow> state \<Rightarrow> state" where
  "deleteTrack_settled outcome s =
     (case outcome of
        Inr u \<Rightarrow> s
      | Inl err \<Rightarrow>
          s\<lparr>error := Some ''Failed to delete track. Please try again.'',
            refreshTrigger := refreshTrigger s + 1\<rparr>)
     \<lparr>isConfirmDialogOpen := False\<rparr>"

text \<open>
  The body of the bulk-delete closure.  \<open>tracksToKeep\<close>, the length of the selection and
  the page test \<open>params.page > 1\<close> read captured variables; the updates of the total and
  of the page are functional.
\<close>

definition tracksToKeep :: "track list \<Rightarrow> string list \<Rightarrow> track list" where
  "tracksToKeep ts sel = filter (\<lambda>t. track_id t \<notin> set sel) ts"

definition bulkDelete_optimistic :: "track list \<Rightarrow> string list \<Rightarrow> state \<Rightarrow> state" where
  "bulkDelete_optimistic ts sel s =
     s\<lparr>tracks := tracksToKeep ts sel,
       paginationMeta :=
         (paginationMeta s)\<lparr>total_meta := max 0 (total_meta (paginationMeta s) - int (length sel))\<rparr>,
       selectedTrackIds := []\<rparr>"

definition bulkDelete_settled ::
  "track list \<Rightarrow> params \<Rightarrow> thrown + unit \<Rightarrow> state \<Rightarrow> state" where
  "bulkDelete_settled kept captured outcome s =
     (case outcome of
        Inr u \<Rightarrow>
          (if length kept = 0 \<and> page captured > 1
           then s\<lparr>params := (params s)\<lparr>page := page (params s) - 1\<rparr>\<rparr>
           else if length kept = 0
           then s\<lparr>refreshTrigger := refreshTrigger s + 1\<rparr>
           else s)
      | Inl err \<Rightarrow>
          s\<lparr>error := Some ''Failed to delete selected tracks. Please try again.'',
            refreshTrigger := refreshTrigger s + 1\<rparr>)
     \<lparr>isConfirmDialogOpen := False\<rparr>"

text \<open>
  Running the stored closure.  The second argument is the outcome of the HTTP request the
  closure issues, as seen by axios.
\<close>

fun runConfirmAction :: "confirm_action \<Rightarrow> thrown + unit \<Rightarrow> state \<Rightarrow> state" where
  "runConfirmAction Noop response s = s"
| "runConfirmAction (DeleteTrackAction i captured) response s =
     deleteTrack_settled (deleteTrack i response) (deleteTrack_optimistic i captured s)"
| "runConfirmAction (BulkDeleteAction ts sel captured) response s =
     bulkDelete_settled (tracksToKeep ts sel) captured (deleteTracks sel response)
       (bulkDelete_optimistic ts sel s)"

definition confirmClick :: "thrown + unit \<Rightarrow> state \<Rightarrow> state" where
  "confirmClick response s = runConfirmAction (confirmAction s) response s"

text \<open>
  The same closure in the two turns of the event loop it really takes: the part up to the
  \<open>await\<close>, and the part that runs once the request has settled.  Other events may come
  between the two.
\<close>

fun runConfirmAction_begin :: "confirm_action \<Rightarrow> state \<Rightarrow> state" where
  "runConfirmAction_begin Noop s = s"
| "runConfirmAction_begin (DeleteTrackAction i captured) s = deleteTrack_optimistic i captured s"
| "runConfirmAction_begin (BulkDeleteAction ts sel captured) s = bulkDelete_optimistic ts sel s"

fun runConfirmAction_settle :: "confirm_action \<Rightarrow> thrown + unit \<Rightarrow> state \<Rightarrow> state" where
  "runConfirmAction_settle Noop response s = s"
| "runConfirmAction_settle (DeleteTrackAction i captured) response s =
     deleteTrack_settled (deleteTrack i response) s"
| "runConfirmAction_settle (BulkDeleteAction ts sel captured) response s =
     bulkDelete_settled (tracksToKeep ts sel) captured (deleteTracks sel response) s"

definition handleEditTrack :: "track \<Rightarrow> state \<Rightarrow> state" where
  "handleEditTrack t s = s\<lparr>currentTrack := Some t, editModal := modal_open (editModal s)\<rparr>"

definition handleUpdateTrack :: "track \<Rightarrow> state \<Rightarrow> state" where
  "handleUpdateTrack updatedTrack s =
     s\<lparr>tracks := map (\<lambda>t. if track_id t = track_id updatedTrack then updatedTrack else t) (tracks s),
       editModal := modal_close (editModal s)\<rparr>"

definition handleTrackCreate :: "track \<Rightarrow> state \<Rightarrow> state" where
  "handleTrackCreate newTrack s =
     s\<lparr>tracks := newTrack # tracks s,
       paginationMeta := (paginationMeta s)\<lparr>total_meta := total_meta (paginationMeta s) + 1\<rparr>,
       createModal := modal_close (createModal s)\<rparr>"

text \<open>The Retry button of the error banner.\<close>

definition retry :: "state \<Rightarrow> state" where
  "retry s = s\<lparr>error := None, refreshTrigger := refreshTrigger s + 1\<rparr>"

subsection \<open>Events of the view\<close>

text \<open>
  What can happen to the view, one event per turn of the event loop.

  User input is taken where the rendered view offers it.  The rows (checkbox, play, edit
  and delete buttons) are rendered under \<open>!isLoading && !error && tracks.length > 0\<close>;
  the play button is disabled without an audio file; the bulk-delete button is rendered
  under \<open>selectedTrackIds.length > 0\<close>; the dialog's buttons while the dialog is open; the
  Retry button under \<open>error\<close>; Previous is disabled on page 1 and Next when
  \<open>params.page >= paginationMeta.totalPages\<close>.

  Responses of requests and callbacks of the dialogs are taken whenever they come: the
  view applies every list response whatever the loading flag says, and the callbacks
  \<open>onCreate\<close>, \<open>onUpdate\<close>, \<open>onClose\<close> and \<open>onFileUpload\<close> belong to asynchronous code of
  the dialogs.  Which requests are in flight is not part of the state, so these events are
  accepted in every state.

  A confirmation is either \<open>ConfirmClick\<close>, whose request settles before anything else
  happens, or \<open>ConfirmClickAwait\<close> followed later by \<open>RequestSettled\<close> for the closure that
  was run.
\<close>

datatype event =
    FetchResolved "thrown + tracks_response"
  | GenresResolved "thrown + string list"
  | FileUploaded
  | ChangeParams partial_params
  | PrevPageClick
  | NextPageClick
  | SelectClick string
  | SelectAllClick
  | PlayClick string
  | DeleteClick string
  | BulkDeleteClick
  | ConfirmClick "thrown + unit"
  | ConfirmClickAwait
  | RequestSettled confirm_action "thrown + unit"
  | CancelClick
  | RetryClick
  | EditClick track
  | UpdateDone track
  | EditClose
  | CreateOpenClick
  | CreateDone track
  | CreateClose

definition rows_rendered :: "state \<Rightarrow> bool" where
  "rows_rendered s = (\<not> isLoading s \<and> \<not> truthy (error s) \<and> length (tracks s) > 0)"

definition visible :: "state \<Rightarrow> string \<Rightarrow> bool" where
  "visible s i = (rows_rendered s \<and> i \<in> set (map track_id (tracks s)))"

text \<open>The prop \<open>isPlaying={track.id === playingTrackId}\<close> handed to a row.\<close>

definition row_isPlaying :: "state \<Rightarrow> track \<Rightarrow> bool" where
  "row_isPlaying s t = (Some (track_id t) = playingTrackId s)"

text \<open>
  The effect \<open>useEffect(() => { fetchTracks() }, [fetchTracks, refreshTrigger])\<close>: a new
  \<open>params\<close> object or a new value of the refresh counter starts a fetch.
\<close>

definition fetch_effect :: "state \<Rightarrow> state \<Rightarrow> state" where
  "fetch_effect old new =
     (if params new \<noteq> params old \<or> refreshTrigger new \<noteq> refreshTrigger old
      then fetchTracks_begin new else new)"

definition mounted :: state where
  "mounted = fetchTracks_begin initial_state"

fun step :: "event \<Rightarrow> state \<Rightarrow> state option" where
  "step (FetchResolved response) s = Some (fetchTracks_resolved response s)"
| "step (GenresResolved response) s = Some (fetchGenres_resolved response s)"
| "step FileUploaded s = Some (fetchTracks_begin s)"
| "step (ChangeParams newParams) s = Some (fetchTracks_begin (handleSearchParams newParams s))"
| "step PrevPageClick s =
     (if page (params s) = 1 then None
      else Some (fetchTracks_begin (handlePageChange (page (params s) - 1) s)))"
| "step NextPageClick s =
     (if page (params s) \<ge> totalPages (paginationMeta s) then None
      else Some (fetchTracks_begin (handlePageChange (page (params s) + 1) s)))"
| "step (SelectClick i) s = (if visible s i then Some (handleSelectTrack i s) else None)"
| "step SelectAllClick s = Some (handleSelectAll s)"
| "step (PlayClick i) s =
     (if rows_rendered s \<and> list_ex (\<lambda>t. track_id t = i \<and> \<not> play_disabled t) (tracks s)
      then Some (handlePlayTrack i s) else None)"
| "step (DeleteClick i) s = (if visible s i then Some (handleDeleteTrack i s) else None)"
| "step BulkDeleteClick s =
     (if length (selectedTrackIds s) > 0 then Some (handleBulkDelete s) else None)"
| "step (ConfirmClick response) s =
     (if isConfirmDialogOpen s then Some (fetch_effect s (confirmClick response s)) else None)"
| "step ConfirmClickAwait s =
     (if isConfirmDialogOpen s then Some (runConfirmAction_begin (confirmAction s) s) else None)"
| "step (RequestSettled a response) s =
     Some (fetch_effect s (runConfirmAction_settle a response s))"
| "step CancelClick s =
     (if isConfirmDialogOpen s then Some (s\<lparr>isConfirmDialogOpen := False\<rparr>) else None)"
| "step RetryClick s = (if truthy (error s) then Some (fetch_effect s (retry s)) else None)"
| "step (EditClick t) s =
     (if rows_rendered s \<and> t \<in> set (tracks s) then Some (handleEditTrack t s) else None)"
| "step (UpdateDone t) s = Some (handleUpdateTrack t s)"
| "step EditClose s = Some (s\<lparr>editModal := modal_close (editModal s)\<rparr>)"
| "step CreateOpenClick s = Some (s\<lparr>createModal := modal_open (createModal s)\<rparr>)"
| "step (CreateDone t) s = Some (handleTrackCreate t s)"
| "step CreateClose s = Some (s\<lparr>createModal := modal_close (createModal s)\<rparr>)"

fun run :: "event list \<Rightarrow> state \<Rightarrow> state option" where
  "run [] s = Some s"
| "run (e # es) s = (case step e s of None \<Rightarrow> None | Some s' \<Rightarrow> run es s')"

definition reachable :: "state \<Rightarrow> bool" where
  "reachable s = (\<exists>es. run es mounted = Some s)"

subsection \<open>Predicates on states\<close>

text \<open>The selection holds only ids of loaded tracks.\<close>

definition selection_inv :: "state \<Rightarrow> bool" where
  "selection_inv s = (set (selectedTrackIds s) \<subseteq> set (map track_id (tracks s)))"

text \<open>
  The stored closure, when it is a single delete of an id that is selected now, was created
  when that id was selected already: then its test \<open>selectedTrackIds.includes(id)\<close> on the
  captured list answers as it would on the present one.
\<close>

definition capture_ok :: "state \<Rightarrow> bool" where
  "capture_ok s =
     (case confirmAction s of
        DeleteTrackAction i captured \<Rightarrow> i \<in> set (selectedTrackIds s) \<longrightarrow> i \<in> set captured
      | _ \<Rightarrow> True)"

fun is_confirm :: "event \<Rightarrow> bool" where
  "is_confirm (ConfirmClick response) = True"
| "is_confirm ConfirmClickAwait = True"
| "is_confirm e = False"

fun is_list_response :: "event \<Rightarrow> bool" where
  "is_list_response (FetchResolved response) = True"
| "is_list_response e = False"

section \<open>Create and edit dialogs\<close>

text \<open>
  The draft of both dialogs has the same shape.  A \<open>File\<close> is represented by the three
  attributes the handlers read or keep.
\<close>

record js_file =
  file_name :: string
  file_type :: string
  file_size :: nat

record form =
  form_title :: string
  form_artist :: string
  form_album :: string
  form_genres :: "string list"
  form_coverImage :: string
  form_audioFile :: "js_file option"

record create_modal =
  create_form :: form
  create_availableGenres :: "string list"
  create_error :: "string option"

record edit_modal =
  edit_form :: form
  edit_availableGenres :: "string list"
  edit_error :: "string option"
  isDeletedFile :: bool

text \<open>\<open>e.target.files?.[0]\<close>: nothing for a missing or empty file list.\<close>

definition first_file :: "js_file list option \<Rightarrow> js_file option" where
  "first_file files = (case files of None \<Rightarrow> None | Some [] \<Rightarrow> None | Some (f # fs) \<Rightarrow> Some f)"

definition create_handleFileChange :: "js_file list option \<Rightarrow> create_modal \<Rightarrow> create_modal" where
  "create_handleFileChange files m =
     (case first_file files of
        None \<Rightarrow> m
      | Some f \<Rightarrow>
          if file_type f \<notin> set [''audio/mpeg'', ''audio/wav'']
          then m\<lparr>create_error := Some ''File must be mp3 or wav''\<rparr>
          else if file_size f > 10 * 1024 * 1024
          then m\<lparr>create_error := Some ''File size must be less than 10MB''\<rparr>
          else m\<lparr>create_form := (create_form m)\<lparr>form_audioFile := Some f\<rparr>,
                 create_error := None\<rparr>)"

definition edit_handleFileChange :: "js_file list option \<Rightarrow> edit_modal \<Rightarrow> edit_modal" where
  "edit_handleFileChange files m =
     (case first_file files of
        None \<Rightarrow> m
      | Some f \<Rightarrow>
          if file_type f \<notin> set [''audio/mpeg'', ''audio/wav'']
          then m\<lparr>edit_error := Some ''File must be mp3 or wav''\<rparr>
          else if file_size f > 10 * 1024 * 1024
          then m\<lparr>edit_error := Some ''File size must be less than 10MB''\<rparr>
          else m\<lparr>edit_form := (edit_form m)\<lparr>form_audioFile := Some f\<rparr>,
                 edit_error := None\<rparr>)"

section \<open>Example data\<close>

text \<open>Concrete tracks, states and files at which the theorems below are instantiated.\<close>

definition example_track :: "string \<Rightarrow> string option \<Rightarrow> track" where
  "example_track i a =
     \<lparr>track_id = i, title = ''Song'', artist = ''Band'', album = [], genres = [],
      coverImage = [], audioFile = a, createdAt = ''2025-05-01T10:00:00''\<rparr>"

definition example_meta :: "int \<Rightarrow> int \<Rightarrow> meta" where
  "example_meta n pages = \<lparr>total_meta = n, totalPages = pages\<rparr>"

definition two_tracks_loaded :: state where
  "two_tracks_loaded =
     initial_state\<lparr>tracks := [example_track ''1'' None, example_track ''2'' None],
                   paginationMeta := example_meta 2 1\<rparr>"

definition example_file :: "string \<Rightarrow> nat \<Rightarrow> js_file" where
  "example_file ty n = \<lparr>file_name = ''take'', file_type = ty, file_size = n\<rparr>"

definition empty_form :: form where
  "empty_form =
     \<lparr>form_title = [], form_artist = [], form_album = [], form_genres = [],
      form_coverImage = [], form_audioFile = None\<rparr>"

definition example_create_modal :: create_modal where
  "example_create_modal =
     \<lparr>create_form = empty_form, create_availableGenres = [], create_error = None\<rparr>"

definition example_edit_modal :: edit_modal where
  "example_edit_modal =
     \<lparr>edit_form = empty_form, edit_availableGenres = [], edit_error = None,
      isDeletedFile = False\<rparr>"

definition no_change :: partial_params where
  "no_change =
     \<lparr>search_opt = None, sort_opt = None, order_opt = None, genre_opt = None,
      artist_opt = None, page_opt = None, limit_opt = None, totalPages_opt = None\<rparr>"

definition list_response :: "track list \<Rightarrow> int \<Rightarrow> int \<Rightarrow> thrown + tracks_response" where
  "list_response ts n pages = Inr \<lparr>data = ts, meta = example_meta n pages\<rparr>"

text \<open>
  A selection made on page 1 and kept while page 2 is loaded: the first page is fetched, its
  track is ticked, Next is pressed, the second page arrives and its track is ticked too.
\<close>

definition stale_selection_events :: "event list" where
  "stale_selection_events =
     [FetchResolved (list_response [example_track ''1'' None] 2 2),
      SelectClick ''1'',
      NextPageClick,
      FetchResolved (list_response [example_track ''2'' None] 2 2),
      SelectClick ''2'']"

definition stale_selection_state :: state where
  "stale_selection_state =
     initial_state
       \<lparr>tracks := [example_track ''2'' None],
        paginationMeta := example_meta 2 2,
        selectedTrackIds := [''1'', ''2''],
        params := (params initial_state)\<lparr>page := 2\<rparr>\<rparr>"

text \<open>The single track of page 2 on screen, nothing selected.\<close>

definition page_two_events :: "event list" where
  "page_two_events =
     [FetchResolved (list_response [example_track ''1'' None] 2 2),
      NextPageClick,
      FetchResolved (list_response [example_track ''2'' None] 2 2)]"

definition last_on_page_two :: state where
  "last_on_page_two =
     initial_state
       \<lparr>tracks := [example_track ''2'' None],
        paginationMeta := example_meta 2 2,
        params := (params initial_state)\<lparr>page := 2\<rparr>\<rparr>"

text \<open>A bulk delete of one of two visible tracks whose HTTP request is rejected.\<close>

definition failed_bulk_events :: "event list" where
  "failed_bulk_events =
     [FetchResolved (list_response [example_track ''1'' None, example_track ''2'' None] 2 1),
      SelectClick ''1'',
      BulkDeleteClick,
      ConfirmClick (Inl (JsError ''Network Error''))]"

definition failed_bulk_state :: state where
  "failed_bulk_state =
     initial_state
       \<lparr>tracks := [example_track ''2'' None],
        paginationMeta := example_meta 1 1,
        confirmAction :=
          BulkDeleteAction [example_track ''1'' None, example_track ''2'' None] [''1'']
            (params initial_state)\<rparr>"

text \<open>
  A track is ticked, the search is changed, and the new list does not hold the track (or
  the request fails).
\<close>

definition selected_then_search :: "event list" where
  "selected_then_search =
     [FetchResolved (list_response [example_track ''1'' None] 1 1),
      SelectClick ''1'',
      ChangeParams (no_change\<lparr>search_opt := Some ''jazz''\<rparr>)]"

definition orphan_selection_state :: state where
  "orphan_selection_state =
     initial_state
       \<lparr>paginationMeta := example_meta 0 1,
        selectedTrackIds := [''1''],
        params := (params initial_state)\<lparr>search := ''jazz''\<rparr>\<rparr>"

definition orphan_selection_failed :: state where
  "orphan_selection_failed =
     initial_state
       \<lparr>paginationMeta := example_meta 1 1,
        error := Some ''timeout of 5000ms exceeded'',
        selectedTrackIds := [''1''],
        params := (params initial_state)\<lparr>search := ''jazz''\<rparr>\<rparr>"

definition delete_pending :: state where
  "delete_pending =
     two_tracks_loaded
       \<lparr>selectedTrackIds := [''1''],
        isConfirmDialogOpen := True,
        confirmAction := DeleteTrackAction ''1'' [''1'']\<rparr>"

text \<open>
  The delete of track 1 is requested while it is not selected, and its checkbox is ticked
  while the dialog is open.
\<close>

definition late_tick_events :: "event list" where
  "late_tick_events =
     [FetchResolved (list_response [example_track ''1'' None, example_track ''2'' None] 2 1),
      DeleteClick ''1'',
      SelectClick ''1'']"

definition late_tick_pending :: state where
  "late_tick_pending =
     two_tracks_loaded
       \<lparr>selectedTrackIds := [''1''],
        isConfirmDialogOpen := True,
        confirmAction := DeleteTrackAction ''1'' []\<rparr>"

definition late_tick_state :: state where
  "late_tick_state =
     two_tracks_loaded
       \<lparr>tracks := [example_track ''2'' None],
        paginationMeta := example_meta 1 1,
        selectedTrackIds := [''1''],
        confirmAction := DeleteTrackAction ''1'' []\<rparr>"

text \<open>
  A track with an audio file is played, the search is changed, and the new list holds the
  same track without its audio file.
\<close>

definition one_audio_loaded :: state where
  "one_audio_loaded =
     initial_state
       \<lparr>tracks := [example_track ''1'' (Some ''one.mp3'')],
        paginationMeta := example_meta 1 1\<rparr>"

definition audio_lost_events :: "event list" where
  "audio_lost_events =
     [FetchResolved (list_response [example_track ''1'' (Some ''one.mp3'')] 1 1),
      PlayClick ''1'',
      ChangeParams (no_change\<lparr>search_opt := Some ''song''\<rparr>),
      FetchResolved (list_response [example_track ''1'' None] 1 1)]"

definition audio_lost_state :: state where
  "audio_lost_state =
     initial_state
       \<lparr>tracks := [example_track ''1'' None],
        paginationMeta := example_meta 1 1,
        playingTrackId := Some ''1'',
        params := (params initial_state)\<lparr>search := ''song''\<rparr>\<rparr>"

section \<open>Verified properties\<close>

subsection \<open>Modal state helper\<close>

text \<open>
  C10.  For every prior state of the modal helper, \<open>open\<close> yields the open state and
  \<open>close\<close> yields the closed state, whatever the prior state was, and \<open>toggle\<close>
  applied twice gives the prior state back.
\<close>

theorem modal_open_close_toggle:
  "modal_open m = \<lparr>isOpen = True\<rparr>
   \<and> modal_close m = \<lparr>isOpen = False\<rparr>
   \<and> modal_toggle (modal_toggle m) = m"
  by (simp add: modal_open_def modal_close_def modal_toggle_def)

subsection \<open>Query parameters\<close>

text \<open>
  C6.  Whatever partial change of the query parameters goes through the parameter-change
  operation (search, sort, order, genre, artist, limit, even a page), the resulting page
  is 1, both right after the handler and in the state the view is in once the reload it
  causes has started.
\<close>

theorem parameter_change_resets_page:
  "page (params (handleSearchParams newParams s)) = 1
   \<and> (\<exists>s'. step (ChangeParams newParams) s = Some s' \<and> page (params s') = 1)"
  by (simp add: handleSearchParams_def fetchTracks_begin_def)

subsection \<open>Selection\<close>

text \<open>
  C8.  Select-all is a toggle over the visible page.  When every visible track is selected
  it clears the selection; otherwise it sets the selection to the ids of the visible
  tracks, in their order.  With no visible track and an empty selection it changes
  nothing.  No other part of the state is touched.
\<close>

theorem select_all_toggles:
  "((\<forall>t \<in> set (tracks s). track_id t \<in> set (selectedTrackIds s))
      \<longrightarrow> handleSelectAll s = s\<lparr>selectedTrackIds := []\<rparr>)
   \<and> (\<not> (\<forall>t \<in> set (tracks s). track_id t \<in> set (selectedTrackIds s))
      \<longrightarrow> handleSelectAll s = s\<lparr>selectedTrackIds := map track_id (tracks s)\<rparr>)
   \<and> (tracks s = [] \<and> selectedTrackIds s = [] \<longrightarrow> handleSelectAll s = s)"
  by (auto simp: handleSelectAll_def list_all_iff)

theorem select_all_toggles_witness:
  "handleSelectAll (two_tracks_loaded\<lparr>selectedTrackIds := [''2'', ''1'']\<rparr>)
     = two_tracks_loaded\<lparr>selectedTrackIds := []\<rparr>
   \<and> handleSelectAll (two_tracks_loaded\<lparr>selectedTrackIds := [''2'']\<rparr>)
     = two_tracks_loaded\<lparr>selectedTrackIds := [''1'', ''2'']\<rparr>
   \<and> handleSelectAll initial_state = initial_state"
  using select_all_toggles [of "two_tracks_loaded\<lparr>selectedTrackIds := [''2'', ''1'']\<rparr>"]
    select_all_toggles [of "two_tracks_loaded\<lparr>selectedTrackIds := [''2'']\<rparr>"]
    select_all_toggles [of initial_state]
  by (simp add: two_tracks_loaded_def initial_state_def example_track_def)

subsection \<open>Attaching an audio file in the dialogs\<close>

text \<open>
  C9.  In the create dialog and in the edit dialog alike: when the chosen file has a media
  type other than \<open>audio/mpeg\<close> and \<open>audio/wav\<close>, or is larger than 10 MiB, the draft
  (its audio field and every other field) stays as it was and the dialog's error message
  is set, to the type message or to the size message; when the file has an allowed type
  and at most 10 MiB, it becomes the draft's audio file, the other fields stay, and the
  error is cleared.
\<close>

theorem file_attachment_validation:
  "(file_type f \<notin> {''audio/mpeg'', ''audio/wav''} \<longrightarrow>
      create_handleFileChange (Some (f # fs)) c
        = c\<lparr>create_error := Some ''File must be mp3 or wav''\<rparr>
      \<and> edit_handleFileChange (Some (f # fs)) e
        = e\<lparr>edit_error := Some ''File must be mp3 or wav''\<rparr>)
   \<and> (file_type f \<in> {''audio/mpeg'', ''audio/wav''} \<and> file_size f > 10 * 1024 * 1024 \<longrightarrow>
      create_handleFileChange (Some (f # fs)) c
        = c\<lparr>create_error := Some ''File size must be less than 10MB''\<rparr>
      \<and> edit_handleFileChange (Some (f # fs)) e
        = e\<lparr>edit_error := Some ''File size must be less than 10MB''\<rparr>)
   \<and> (file_type f \<notin> {''audio/mpeg'', ''audio/wav''} \<or> file_size f > 10 * 1024 * 1024 \<longrightarrow>
      create_form (create_handleFileChange (Some (f # fs)) c) = create_form c
      \<and> create_error (create_handleFileChange (Some (f # fs)) c) \<noteq> None
      \<and> edit_form (edit_handleFileChange (Some (f # fs)) e) = edit_form e
      \<and> edit_error (edit_handleFileChange (Some (f # fs)) e) \<noteq> None)
   \<and> (file_type f \<in> {''audio/mpeg'', ''audio/wav''} \<and> file_size f \<le> 10 * 1024 * 1024 \<longrightarrow>
      create_handleFileChange (Some (f # fs)) c
        = c\<lparr>create_form := (create_form c)\<lparr>form_audioFile := Some f\<rparr>, create_error := None\<rparr>
      \<and> edit_handleFileChange (Some (f # fs)) e
        = e\<lparr>edit_form := (edit_form e)\<lparr>form_audioFile := Some f\<rparr>, edit_error := None\<rparr>)"
  by (auto simp: create_handleFileChange_def edit_handleFileChange_def first_file_def)

theorem file_attachment_validation_witness:
  "create_form (create_handleFileChange (Some [example_file ''video/mp4'' 1000])
       (example_create_modal\<lparr>create_form := empty_form\<lparr>form_audioFile :=
          Some (example_file ''audio/wav'' 5)\<rparr>\<rparr>))
     = empty_form\<lparr>form_audioFile := Some (example_file ''audio/wav'' 5)\<rparr>
   \<and> create_error (create_handleFileChange (Some [example_file ''video/mp4'' 1000])
       (example_create_modal\<lparr>create_form := empty_form\<lparr>form_audioFile :=
          Some (example_file ''audio/wav'' 5)\<rparr>\<rparr>))
     = Some ''File must be mp3 or wav''
   \<and> edit_handleFileChange (Some [example_file ''audio/mpeg'' 10485761]) example_edit_modal
     = example_edit_modal\<lparr>edit_error := Some ''File size must be less than 10MB''\<rparr>
   \<and> edit_handleFileChange (Some [example_file ''audio/mpeg'' 10485760])
       (example_edit_modal\<lparr>edit_error := Some ''File must be mp3 or wav''\<rparr>)
     = example_edit_modal\<lparr>edit_form := empty_form\<lparr>form_audioFile :=
          Some (example_file ''audio/mpeg'' 10485760)\<rparr>\<rparr>"
  using file_attachment_validation
    [of "example_file ''video/mp4'' 1000" "[]"
        "example_create_modal\<lparr>create_form := empty_form\<lparr>form_audioFile :=
           Some (example_file ''audio/wav'' 5)\<rparr>\<rparr>" example_edit_modal]
    file_attachment_validation
    [of "example_file ''audio/mpeg'' 10485761" "[]" example_create_modal example_edit_modal]
    file_attachment_validation
    [of "example_file ''audio/mpeg'' 10485760" "[]" example_create_modal
        "example_edit_modal\<lparr>edit_error := Some ''File must be mp3 or wav''\<rparr>"]
  by (simp add: example_file_def example_create_modal_def example_edit_modal_def empty_form_def)

subsection \<open>Runs of the view\<close>

lemmas example_defs =
  mounted_def initial_state_def list_response_def example_track_def example_meta_def
  no_change_def useModalState_def two_tracks_loaded_def

lemmas handler_defs =
  fetchTracks_begin_def fetchTracks_resolved_def getTracks_def rows_rendered_def visible_def
  handleSearchParams_def spread_def handlePlayTrack_def play_disabled_def truthy_def
  handleSelectTrack_def handlePageChange_def handleBulkDelete_def handleDeleteTrack_def
  confirmClick_def fetch_effect_def deleteTrack_def deleteTracks_def
  deleteTrack_optimistic_def deleteTrack_settled_def
  bulkDelete_optimistic_def bulkDelete_settled_def tracksToKeep_def

lemma reachableI: "run es mounted = Some s \<Longrightarrow> reachable s"
  unfolding reachable_def by blast

subsection \<open>Bulk delete\<close>

lemma count_selected_visible:
  assumes "distinct (map f xs)" and "distinct ys" and "set ys \<subseteq> set (map f xs)"
  shows "length (filter (\<lambda>x. f x \<in> set ys) xs) = length ys"
proof -
  have inj: "inj_on f (set xs)" and dxs: "distinct xs"
    using assms(1) by (auto simp: distinct_map)
  have "length (filter (\<lambda>x. f x \<in> set ys) xs) = card ({x. f x \<in> set ys} \<inter> set xs)"
    using dxs by (rule distinct_length_filter)
  also have "\<dots> = card (f ` ({x. f x \<in> set ys} \<inter> set xs))"
    by (rule card_image [symmetric]) (rule inj_on_subset [OF inj], auto)
  also have "f ` ({x. f x \<in> set ys} \<inter> set xs) = set ys"
    using assms(3) by auto
  also have "card (set ys) = length ys"
    using assms(2) by (rule distinct_card)
  finally show ?thesis .
qed

lemma bulk_closure_stored:
  "selectedTrackIds s0 \<noteq> [] \<Longrightarrow>
   confirmAction (handleBulkDelete s0)
     = BulkDeleteAction (tracks s0) (selectedTrackIds s0) (params s0)"
  by (simp add: handleBulkDelete_def)

lemma runConfirmAction_parts:
  "runConfirmAction a r s = runConfirmAction_settle a r (runConfirmAction_begin a s)"
  by (cases a) simp_all

lemma bulk_settle_untouched:
  "tracks (runConfirmAction_settle (BulkDeleteAction ts sel p) r u) = tracks u"
  "paginationMeta (runConfirmAction_settle (BulkDeleteAction ts sel p) r u) = paginationMeta u"
  "selectedTrackIds (runConfirmAction_settle (BulkDeleteAction ts sel p) r u) = selectedTrackIds u"
  by (simp_all add: bulkDelete_settled_def deleteTracks_def split: sum.splits)

text \<open>
  C1, as stated, fails.  With a selection of two ids of which one is on the visible page
  (the other was ticked on the page before), the confirmed bulk delete removes one entity
  while the total drops by two.  Each list response of the run answers a request started
  before it, by the mount or by the press on Next.
\<close>

theorem bulk_delete_total_counterexample:
  "run stale_selection_events mounted = Some stale_selection_state
   \<and> length (filter (\<lambda>t. track_id t \<in> set (selectedTrackIds stale_selection_state))
        (tracks stale_selection_state)) = 1
   \<and> length (tracks stale_selection_state)
       - length (tracks (confirmClick (Inr ()) (handleBulkDelete stale_selection_state))) = 1
   \<and> total_meta (paginationMeta stale_selection_state)
       - total_meta (paginationMeta (confirmClick (Inr ()) (handleBulkDelete stale_selection_state)))
       = 2"
  by (simp add: stale_selection_events_def stale_selection_state_def example_defs handler_defs)

text \<open>
  C1, amended.  Take any bulk delete: Delete is pressed with a non-empty selection \<open>S\<close>,
  and the dialog is confirmed in some state that still holds the closure made by that
  press.  Up to its request the closure clears the selection and lowers the total by the
  number of selected ids, \<open>|S|\<close>, floored at 0; and when the loaded collection is still the
  one the dialog was opened on, it removes from it exactly the tracks whose id is in \<open>S\<close>.
  The part that runs after the request, whatever its outcome, touches neither collection,
  total nor selection.  The drop of the total is the number of removed entities when in
  addition \<open>S\<close> has no duplicates, every id of \<open>S\<close> is on the page, the ids of the page are
  pairwise different and the total is at least \<open>|S|\<close>.
\<close>

theorem bulk_delete_removes_selected:
  assumes click: "selectedTrackIds s0 \<noteq> []"
    and stored: "confirmAction s = confirmAction (handleBulkDelete s0)"
  shows "(tracks s = tracks s0 \<longrightarrow>
            tracks (runConfirmAction_begin (confirmAction s) s)
              = filter (\<lambda>t. track_id t \<notin> set (selectedTrackIds s0)) (tracks s))
    \<and> total_meta (paginationMeta (runConfirmAction_begin (confirmAction s) s))
         = max 0 (total_meta (paginationMeta s) - int (length (selectedTrackIds s0)))
    \<and> selectedTrackIds (runConfirmAction_begin (confirmAction s) s) = []
    \<and> (\<forall>u. tracks (runConfirmAction_settle (confirmAction s) r u) = tracks u
          \<and> paginationMeta (runConfirmAction_settle (confirmAction s) r u) = paginationMeta u
          \<and> selectedTrackIds (runConfirmAction_settle (confirmAction s) r u) = selectedTrackIds u)
    \<and> confirmClick r s
         = runConfirmAction_settle (confirmAction s) r (runConfirmAction_begin (confirmAction s) s)
    \<and> (tracks s = tracks s0
         \<and> distinct (selectedTrackIds s0)
         \<and> set (selectedTrackIds s0) \<subseteq> set (map track_id (tracks s))
         \<and> distinct (map track_id (tracks s))
         \<and> int (length (selectedTrackIds s0)) \<le> total_meta (paginationMeta s)
       \<longrightarrow> total_meta (paginationMeta (runConfirmAction_begin (confirmAction s) s))
           = total_meta (paginationMeta s)
             - int (length (tracks s)
                    - length (tracks (runConfirmAction_begin (confirmAction s) s))))"
proof -
  let ?sel = "selectedTrackIds s0" and ?ts = "tracks s"
  let ?P = "\<lambda>t. track_id t \<in> set ?sel"
  have a: "confirmAction s = BulkDeleteAction (tracks s0) ?sel (params s0)"
    using stored bulk_closure_stored [OF click] by simp
  have begin_tracks: "tracks (runConfirmAction_begin (confirmAction s) s)
      = filter (\<lambda>t. \<not> ?P t) (tracks s0)"
    and begin_total: "total_meta (paginationMeta (runConfirmAction_begin (confirmAction s) s))
      = max 0 (total_meta (paginationMeta s) - int (length ?sel))"
    and begin_sel: "selectedTrackIds (runConfirmAction_begin (confirmAction s) s) = []"
    by (simp_all add: a bulkDelete_optimistic_def tracksToKeep_def)
  have removed: "length ?ts - length (filter (\<lambda>t. \<not> ?P t) ?ts) = length (filter ?P ?ts)"
    using sum_length_filter_compl [of ?P ?ts] by simp
  have count: "max 0 (total_meta (paginationMeta s) - int (length ?sel))
            = total_meta (paginationMeta s)
              - int (length ?ts - length (filter (\<lambda>t. \<not> ?P t) ?ts))"
    if h: "distinct ?sel" "set ?sel \<subseteq> set (map track_id ?ts)"
      "distinct (map track_id ?ts)" "int (length ?sel) \<le> total_meta (paginationMeta s)"
  proof -
    have "length (filter ?P ?ts) = length ?sel"
      using h(3) h(1) h(2) by (rule count_selected_visible)
    with removed h(4) show ?thesis by simp
  qed
  have parts: "confirmClick r s
      = runConfirmAction_settle (confirmAction s) r (runConfirmAction_begin (confirmAction s) s)"
    by (simp add: confirmClick_def runConfirmAction_parts)
  have settle: "\<forall>u. tracks (runConfirmAction_settle (confirmAction s) r u) = tracks u
          \<and> paginationMeta (runConfirmAction_settle (confirmAction s) r u) = paginationMeta u
          \<and> selectedTrackIds (runConfirmAction_settle (confirmAction s) r u) = selectedTrackIds u"
    unfolding a by (intro allI conjI) (rule bulk_settle_untouched)+
  show ?thesis
    using begin_tracks begin_total begin_sel settle parts count by auto
qed

theorem bulk_delete_removes_selected_witness:
  "selectedTrackIds (two_tracks_loaded\<lparr>selectedTrackIds := [''1'']\<rparr>) \<noteq> []
   \<and> confirmAction (handleSelectTrack ''2''
          (handleBulkDelete (two_tracks_loaded\<lparr>selectedTrackIds := [''1'']\<rparr>)))
       = confirmAction (handleBulkDelete (two_tracks_loaded\<lparr>selectedTrackIds := [''1'']\<rparr>))
   \<and> selectedTrackIds (handleSelectTrack ''2''
          (handleBulkDelete (two_tracks_loaded\<lparr>selectedTrackIds := [''1'']\<rparr>)))
       = [''1'', ''2'']
   \<and> tracks (confirmClick (Inr ()) (handleSelectTrack ''2''
          (handleBulkDelete (two_tracks_loaded\<lparr>selectedTrackIds := [''1'']\<rparr>))))
       = [example_track ''2'' None]
   \<and> total_meta (paginationMeta (confirmClick (Inr ()) (handleSelectTrack ''2''
          (handleBulkDelete (two_tracks_loaded\<lparr>selectedTrackIds := [''1'']\<rparr>)))))
       = 1
   \<and> selectedTrackIds (confirmClick (Inr ()) (handleSelectTrack ''2''
          (handleBulkDelete (two_tracks_loaded\<lparr>selectedTrackIds := [''1'']\<rparr>))))
       = []"
proof -
  let ?pressed = "two_tracks_loaded\<lparr>selectedTrackIds := [''1'']\<rparr>"
  let ?later = "handleSelectTrack ''2'' (handleBulkDelete ?pressed)"
  have click: "selectedTrackIds ?pressed \<noteq> []"
    by simp
  have stored: "confirmAction ?later = confirmAction (handleBulkDelete ?pressed)"
    by (simp add: handleSelectTrack_def)
  have same: "tracks ?later = tracks ?pressed" "paginationMeta ?later = paginationMeta ?pressed"
    by (simp_all add: handleSelectTrack_def handleBulkDelete_def)
  have ticked: "selectedTrackIds ?later = [''1'', ''2'']"
    by (simp add: handleSelectTrack_def handleBulkDelete_def)
  from bulk_delete_removes_selected [OF click stored, of "Inr ()"] same
  have "tracks (confirmClick (Inr ()) ?later)
          = filter (\<lambda>t. track_id t \<notin> set (selectedTrackIds ?pressed)) (tracks ?pressed)"
    and "total_meta (paginationMeta (confirmClick (Inr ()) ?later))
          = max 0 (total_meta (paginationMeta ?pressed) - int (length (selectedTrackIds ?pressed)))"
    and "selectedTrackIds (confirmClick (Inr ()) ?later) = []"
    by simp_all
  then have "tracks (confirmClick (Inr ()) ?later) = [example_track ''2'' None]"
    and "total_meta (paginationMeta (confirmClick (Inr ()) ?later)) = 1"
    and "selectedTrackIds (confirmClick (Inr ()) ?later) = []"
    by (simp_all add: example_defs)
  with click stored ticked show ?thesis by blast
qed

text \<open>
  C3.  The claim is not met by the code.  The client's \<open>deleteTracks\<close> catches every
  rejection and returns normally, so the closure of \<open>handleBulkDelete\<close> never reaches its
  \<open>catch\<close> branch: whatever the outcome of the request, the error message is left as it
  was.  In the run below the request of a bulk delete is rejected with a network error;
  afterwards no error is shown, the refresh counter has not moved and no reload is under
  way, while the deleted row is gone from the screen.
\<close>

theorem bulk_delete_failure_swallowed:
  "deleteTracks ids response = Inr ()
   \<and> error (runConfirmAction (BulkDeleteAction ts sel captured) response s) = error s
   \<and> run failed_bulk_events mounted = Some failed_bulk_state
   \<and> error failed_bulk_state = None
   \<and> refreshTrigger failed_bulk_state = refreshTrigger mounted
   \<and> \<not> isLoading failed_bulk_state"
  by (simp add: failed_bulk_events_def failed_bulk_state_def example_defs handler_defs
      split: sum.splits)

subsection \<open>Single delete\<close>

lemma filter_neq_distinct_split:
  assumes "distinct (map f (ys @ t # zs))"
  shows "filter (\<lambda>x. f x \<noteq> f t) (ys @ t # zs) = ys @ zs"
proof -
  have "\<forall>x \<in> set ys \<union> set zs. f x \<noteq> f t"
    using assms by (auto simp: image_iff)
  then show ?thesis by simp
qed

text \<open>
  What the single-delete closure does to the state it runs in, whenever it runs: the
  collection and the total are updated from the present state, the selection only when
  the captured selection held the id.
\<close>

lemma single_delete_effect:
  assumes "confirmAction s = DeleteTrackAction i captured"
  shows "tracks (confirmClick r s) = filter (\<lambda>t. track_id t \<noteq> i) (tracks s)"
    and "total_meta (paginationMeta (confirmClick r s)) = max 0 (total_meta (paginationMeta s) - 1)"
    and "selectedTrackIds (confirmClick r s)
           = (if i \<in> set captured then filter (\<lambda>x. x \<noteq> i) (selectedTrackIds s)
              else selectedTrackIds s)"
  using assms
  by (simp_all add: confirmClick_def deleteTrack_settled_def deleteTrack_optimistic_def Let_def
      split: sum.splits)

text \<open>
  Confirmed in the state the click on the row left, with pairwise different ids on the
  page, the single delete does what C5 says: one entity goes, the total drops by one
  floored at 0, the id leaves the selection.
\<close>

lemma single_delete_from_click:
  assumes present: "i \<in> set (map track_id (tracks s))"
    and ids: "distinct (map track_id (tracks s))"
  shows "(\<exists>ys t zs. tracks s = ys @ t # zs \<and> track_id t = i
            \<and> tracks (confirmClick r (handleDeleteTrack i s)) = ys @ zs)
    \<and> total_meta (paginationMeta (confirmClick r (handleDeleteTrack i s)))
         = max 0 (total_meta (paginationMeta s) - 1)
    \<and> selectedTrackIds (confirmClick r (handleDeleteTrack i s))
         = filter (\<lambda>x. x \<noteq> i) (selectedTrackIds s)"
proof -
  have stored: "confirmAction (handleDeleteTrack i s) = DeleteTrackAction i (selectedTrackIds s)"
    and same: "tracks (handleDeleteTrack i s) = tracks s"
      "paginationMeta (handleDeleteTrack i s) = paginationMeta s"
      "selectedTrackIds (handleDeleteTrack i s) = selectedTrackIds s"
    by (simp_all add: handleDeleteTrack_def)
  from present obtain t where t: "t \<in> set (tracks s)" "track_id t = i" by auto
  then obtain ys zs where split: "tracks s = ys @ t # zs"
    by (auto dest: split_list)
  have "filter (\<lambda>x. track_id x \<noteq> track_id t) (ys @ t # zs) = ys @ zs"
    using ids unfolding split by (rule filter_neq_distinct_split)
  then have gone: "tracks (confirmClick r (handleDeleteTrack i s)) = ys @ zs"
    using split t(2) by (simp add: single_delete_effect(1) [OF stored] same)
  have "i \<notin> set (selectedTrackIds s)
      \<Longrightarrow> filter (\<lambda>x. x \<noteq> i) (selectedTrackIds s) = selectedTrackIds s"
    by (auto simp: filter_id_conv)
  then have "selectedTrackIds (confirmClick r (handleDeleteTrack i s))
      = filter (\<lambda>x. x \<noteq> i) (selectedTrackIds s)"
    by (simp add: single_delete_effect(3) [OF stored] same)
  with gone split t(2) show ?thesis
    by (auto simp: single_delete_effect(2) [OF stored] same)
qed

text \<open>
  C5.  The claim is not met by the code when the id gets selected while the dialog is
  open.  The closure tests \<open>selectedTrackIds.includes(id)\<close> on the list captured when the
  row's Delete button was pressed.  In the run below track 1 is not selected when its
  delete is requested, its checkbox is ticked while the dialog is open, and the delete is
  confirmed: the track leaves the collection and the total drops to 1, but its id stays in
  the selection.
\<close>

theorem single_delete_keeps_late_tick:
  "run late_tick_events mounted = Some late_tick_pending
   \<and> ''1'' \<in> set (map track_id (tracks late_tick_pending))
   \<and> ''1'' \<in> set (selectedTrackIds late_tick_pending)
   \<and> step (ConfirmClick (Inr ())) late_tick_pending = Some late_tick_state
   \<and> map track_id (tracks late_tick_state) = [''2'']
   \<and> total_meta (paginationMeta late_tick_state) = 1
   \<and> selectedTrackIds late_tick_state = [''1'']"
  by (simp add: late_tick_events_def late_tick_pending_def late_tick_state_def
      example_defs handler_defs)

subsection \<open>Deletes that empty the page\<close>

text \<open>
  The bulk delete that empties the page: on a page above 1 the page goes down by one and
  the refresh counter stays; on page 1 (or below) the page stays and the refresh counter
  goes up by one, which forces a reload.  As the client's bulk call never fails, this holds
  for every outcome of the request.
\<close>

lemma bulk_delete_empty_page:
  assumes "selectedTrackIds s \<noteq> []" and "tracksToKeep (tracks s) (selectedTrackIds s) = []"
  shows "(page (params s) > 1 \<longrightarrow>
            page (params (confirmClick r (handleBulkDelete s))) = page (params s) - 1
            \<and> refreshTrigger (confirmClick r (handleBulkDelete s)) = refreshTrigger s)
       \<and> (page (params s) \<le> 1 \<longrightarrow>
            page (params (confirmClick r (handleBulkDelete s))) = page (params s)
            \<and> refreshTrigger (confirmClick r (handleBulkDelete s)) = refreshTrigger s + 1)"
  using assms
  by (simp add: confirmClick_def handleBulkDelete_def bulkDelete_settled_def
      bulkDelete_optimistic_def deleteTracks_def split: sum.splits)

text \<open>
  C4.  The claim is not met by the single delete.  With one track left on page 2, deleting
  it through its row and confirming (the request succeeds) empties the collection, yet the
  page stays 2, the refresh counter does not move and no reload starts.  The bulk delete of
  the same track from the same state steps back to page 1 and starts the reload.
\<close>

theorem single_delete_leaves_empty_page:
  "run page_two_events mounted = Some last_on_page_two
   \<and> run [DeleteClick ''2'', ConfirmClick (Inr ())] last_on_page_two
       = Some (last_on_page_two
           \<lparr>tracks := [], paginationMeta := example_meta 1 2,
            confirmAction := DeleteTrackAction ''2'' []\<rparr>)
   \<and> page (params (last_on_page_two
           \<lparr>tracks := [], paginationMeta := example_meta 1 2,
            confirmAction := DeleteTrackAction ''2'' []\<rparr>)) = 2
   \<and> refreshTrigger (last_on_page_two
           \<lparr>tracks := [], paginationMeta := example_meta 1 2,
            confirmAction := DeleteTrackAction ''2'' []\<rparr>) = refreshTrigger last_on_page_two
   \<and> \<not> isLoading (last_on_page_two
           \<lparr>tracks := [], paginationMeta := example_meta 1 2,
            confirmAction := DeleteTrackAction ''2'' []\<rparr>)
   \<and> run [SelectClick ''2'', BulkDeleteClick, ConfirmClick (Inr ())] last_on_page_two
       = Some (last_on_page_two
           \<lparr>tracks := [], paginationMeta := example_meta 1 2,
            confirmAction := BulkDeleteAction [example_track ''2'' None] [''2'']
              (params last_on_page_two),
            params := (params last_on_page_two)\<lparr>page := 1\<rparr>,
            isLoading := True\<rparr>)"
  by (simp add: page_two_events_def last_on_page_two_def example_defs handler_defs)

subsection \<open>Selection and the loaded page\<close>

text \<open>
  C2, as stated, fails.  After a track is ticked and the search is changed, the response
  to the request of the new search replaces the collection (here by the empty list, or
  empties it on failure) and leaves the selection alone: a reachable state whose selection
  holds an id that is not loaded.
\<close>

theorem selection_subset_counterexample:
  "run (selected_then_search @ [FetchResolved (list_response [] 0 0)]) mounted
     = Some orphan_selection_state
   \<and> reachable orphan_selection_state
   \<and> \<not> selection_inv orphan_selection_state
   \<and> run (selected_then_search @ [FetchResolved (Inl (JsError ''timeout of 5000ms exceeded''))])
       mounted = Some orphan_selection_failed
   \<and> reachable orphan_selection_failed
   \<and> \<not> selection_inv orphan_selection_failed"
proof -
  have ok: "run (selected_then_search @ [FetchResolved (list_response [] 0 0)]) mounted
      = Some orphan_selection_state"
    by (simp add: selected_then_search_def orphan_selection_state_def example_defs handler_defs)
  have failed:
    "run (selected_then_search @ [FetchResolved (Inl (JsError ''timeout of 5000ms exceeded''))])
       mounted = Some orphan_selection_failed"
    by (simp add: selected_then_search_def orphan_selection_failed_def example_defs handler_defs)
  have "\<not> selection_inv orphan_selection_state" "\<not> selection_inv orphan_selection_failed"
    by (simp_all add: selection_inv_def orphan_selection_state_def orphan_selection_failed_def
        initial_state_def)
  with ok failed reachableI [OF ok] reachableI [OF failed] show ?thesis by blast
qed

lemma selection_inv_fetch_begin:
  "selection_inv (fetchTracks_begin s) = selection_inv s"
  by (simp add: selection_inv_def fetchTracks_begin_def)

lemma selection_inv_fetch_effect:
  "selection_inv (fetch_effect s0 s) = selection_inv s"
  by (simp add: fetch_effect_def selection_inv_fetch_begin)

lemma selection_inv_begin:
  assumes "selection_inv s" and "capture_ok s"
  shows "selection_inv (runConfirmAction_begin (confirmAction s) s)"
proof (cases "confirmAction s")
  case Noop
  with assms show ?thesis by simp
next
  case (DeleteTrackAction i captured)
  with assms(2) have cap: "i \<in> set (selectedTrackIds s) \<longrightarrow> i \<in> set captured"
    by (simp add: capture_ok_def)
  show ?thesis
    using assms(1) DeleteTrackAction cap
    by (auto simp: selection_inv_def deleteTrack_optimistic_def Let_def)
next
  case (BulkDeleteAction ts sel p)
  then show ?thesis
    by (simp add: selection_inv_def bulkDelete_optimistic_def)
qed

lemma selection_inv_settle:
  "selection_inv (runConfirmAction_settle a r s) = selection_inv s"
  by (cases a)
    (simp_all add: selection_inv_def deleteTrack_settled_def bulkDelete_settled_def
      split: sum.splits)

lemma selection_inv_confirm:
  assumes "selection_inv s" and "capture_ok s"
  shows "selection_inv (confirmClick r s)"
  using selection_inv_begin [OF assms]
  by (simp add: confirmClick_def runConfirmAction_parts selection_inv_settle)

lemma update_keeps_ids:
  "map track_id (map (\<lambda>t. if track_id t = track_id u then u else t) ts) = map track_id ts"
  by (induction ts) auto

text \<open>
  C2, amended.  Every event of the view other than the arrival of a list response keeps
  the selection inside the ids of the loaded tracks: the genre response, parameter change,
  page change, ticking a visible row, select-all, play, opening, confirming or cancelling a
  single or a bulk delete, the settling of a delete request, retry, edit, update, create,
  closing a dialog and the reload after an upload.  For the confirmation alone there is a
  proviso: when the stored closure is a single delete of an id that is selected at
  confirmation, the id was selected when the dialog was opened.  The arrival of a list
  response, success or failure, is not among these events.
\<close>

theorem selection_preserved_except_fetch:
  assumes inv: "selection_inv s"
    and ev: "\<not> is_list_response e"
    and cap: "is_confirm e \<Longrightarrow> capture_ok s"
    and st: "step e s = Some s'"
  shows "selection_inv s'"
proof (cases e)
  case (FetchResolved response)
  with ev show ?thesis by simp
next
  case (GenresResolved response)
  with st inv show ?thesis
    by (auto simp: selection_inv_def fetchGenres_resolved_def split: sum.splits)
next
  case FileUploaded
  with st inv show ?thesis
    by (auto simp: selection_inv_fetch_begin)
next
  case (ChangeParams p)
  with st inv show ?thesis
    by (auto simp: selection_inv_def handleSearchParams_def fetchTracks_begin_def)
next
  case PrevPageClick
  with st inv show ?thesis
    by (auto simp: selection_inv_def handlePageChange_def fetchTracks_begin_def split: if_splits)
next
  case NextPageClick
  with st inv show ?thesis
    by (auto simp: selection_inv_def handlePageChange_def fetchTracks_begin_def split: if_splits)
next
  case (SelectClick i)
  with st inv show ?thesis
    by (auto simp: selection_inv_def handleSelectTrack_def visible_def split: if_splits)
next
  case SelectAllClick
  with st inv show ?thesis
    by (auto simp: selection_inv_def handleSelectAll_def split: if_splits)
next
  case (PlayClick i)
  with st inv show ?thesis
    by (auto simp: selection_inv_def handlePlayTrack_def split: if_splits)
next
  case (DeleteClick i)
  with st inv show ?thesis
    by (auto simp: selection_inv_def handleDeleteTrack_def split: if_splits)
next
  case BulkDeleteClick
  with st inv show ?thesis
    by (auto simp: selection_inv_def handleBulkDelete_def split: if_splits)
next
  case (ConfirmClick r)
  with cap have "capture_ok s" by simp
  moreover from ConfirmClick st have "s' = fetch_effect s (confirmClick r s)"
    by (auto split: if_splits)
  ultimately show ?thesis
    using selection_inv_confirm [OF inv] by (simp add: selection_inv_fetch_effect)
next
  case ConfirmClickAwait
  with cap have "capture_ok s" by simp
  moreover from ConfirmClickAwait st have "s' = runConfirmAction_begin (confirmAction s) s"
    by (auto split: if_splits)
  ultimately show ?thesis
    using selection_inv_begin [OF inv] by simp
next
  case (RequestSettled a r)
  with st have "s' = fetch_effect s (runConfirmAction_settle a r s)"
    by simp
  with inv show ?thesis
    by (simp add: selection_inv_fetch_effect selection_inv_settle)
next
  case CancelClick
  with st inv show ?thesis
    by (auto simp: selection_inv_def split: if_splits)
next
  case RetryClick
  with st have "s' = fetch_effect s (retry s)"
    by (auto split: if_splits)
  moreover have "selection_inv (retry s)"
    using inv by (simp add: selection_inv_def retry_def)
  ultimately show ?thesis by (simp add: selection_inv_fetch_effect)
next
  case (EditClick t)
  with st inv show ?thesis
    by (auto simp: selection_inv_def handleEditTrack_def split: if_splits)
next
  case (UpdateDone t)
  with st have "s' = handleUpdateTrack t s"
    by simp
  moreover have "map track_id (tracks (handleUpdateTrack t s)) = map track_id (tracks s)"
    by (simp add: handleUpdateTrack_def update_keeps_ids del: map_map)
  moreover have "selectedTrackIds (handleUpdateTrack t s) = selectedTrackIds s"
    by (simp add: handleUpdateTrack_def)
  ultimately show ?thesis
    using inv by (simp only: selection_inv_def)
next
  case EditClose
  with st inv show ?thesis
    by (auto simp: selection_inv_def)
next
  case CreateOpenClick
  with st inv show ?thesis
    by (auto simp: selection_inv_def)
next
  case (CreateDone t)
  with st inv show ?thesis
    by (auto simp: selection_inv_def handleTrackCreate_def)
next
  case CreateClose
  with st inv show ?thesis
    by (auto simp: selection_inv_def)
qed

theorem selection_preserved_except_fetch_witness:
  "selection_inv delete_pending
   \<and> capture_ok delete_pending
   \<and> step (ConfirmClick (Inr ())) delete_pending
       = Some (delete_pending
           \<lparr>tracks := [example_track ''2'' None], paginationMeta := example_meta 1 1,
            selectedTrackIds := [], isConfirmDialogOpen := False\<rparr>)
   \<and> selection_inv (delete_pending
           \<lparr>tracks := [example_track ''2'' None], paginationMeta := example_meta 1 1,
            selectedTrackIds := [], isConfirmDialogOpen := False\<rparr>)
   \<and> selection_inv late_tick_pending
   \<and> \<not> capture_ok late_tick_pending
   \<and> step SelectAllClick late_tick_pending
       = Some (late_tick_pending\<lparr>selectedTrackIds := [''1'', ''2'']\<rparr>)
   \<and> selection_inv (late_tick_pending\<lparr>selectedTrackIds := [''1'', ''2'']\<rparr>)"
proof -
  have inv: "selection_inv delete_pending"
    by (simp add: selection_inv_def delete_pending_def example_defs)
  have cur: "capture_ok delete_pending"
    by (simp add: capture_ok_def delete_pending_def example_defs)
  have st: "step (ConfirmClick (Inr ())) delete_pending
       = Some (delete_pending
           \<lparr>tracks := [example_track ''2'' None], paginationMeta := example_meta 1 1,
            selectedTrackIds := [], isConfirmDialogOpen := False\<rparr>)"
    by (simp add: delete_pending_def example_defs handler_defs)
  have inv': "selection_inv late_tick_pending"
    by (simp add: selection_inv_def late_tick_pending_def example_defs)
  have stale: "\<not> capture_ok late_tick_pending"
    by (simp add: capture_ok_def late_tick_pending_def example_defs)
  have st': "step SelectAllClick late_tick_pending
       = Some (late_tick_pending\<lparr>selectedTrackIds := [''1'', ''2'']\<rparr>)"
    by (simp add: late_tick_pending_def example_defs handleSelectAll_def)
  have "selection_inv (delete_pending
           \<lparr>tracks := [example_track ''2'' None], paginationMeta := example_meta 1 1,
            selectedTrackIds := [], isConfirmDialogOpen := False\<rparr>)"
    using selection_preserved_except_fetch [OF inv _ _ st] cur by simp
  moreover have "selection_inv (late_tick_pending\<lparr>selectedTrackIds := [''1'', ''2'']\<rparr>)"
    using selection_preserved_except_fetch [OF inv' _ _ st'] by simp
  ultimately show ?thesis
    using inv cur st inv' stale st' by blast
qed

subsection \<open>Playback pointer\<close>

text \<open>
  C7, as stated, fails.  A track with an audio file is played; then the search is changed
  and the response to the new request holds the same track without an audio file.  The
  pointer still names the track: a reachable state in which the referenced track has no
  audio file.
\<close>

theorem playback_pointer_counterexample:
  "run audio_lost_events mounted = Some audio_lost_state
   \<and> reachable audio_lost_state
   \<and> playingTrackId audio_lost_state = Some ''1''
   \<and> tracks audio_lost_state = [example_track ''1'' None]
   \<and> track_id (example_track ''1'' None) = ''1''
   \<and> \<not> truthy (audioFile (example_track ''1'' None))"
proof -
  have r: "run audio_lost_events mounted = Some audio_lost_state"
    by (simp add: audio_lost_events_def audio_lost_state_def example_defs handler_defs)
  have "playingTrackId audio_lost_state = Some ''1''"
    "tracks audio_lost_state = [example_track ''1'' None]"
    "track_id (example_track ''1'' None) = ''1''"
    "\<not> truthy (audioFile (example_track ''1'' None))"
    by (simp_all add: audio_lost_state_def example_defs truthy_def)
  with r reachableI [OF r] show ?thesis by blast
qed

lemma pointer_changes_only_by_play:
  assumes "step e s = Some s'" and "playingTrackId s' \<noteq> playingTrackId s"
  shows "\<exists>i. e = PlayClick i"
proof (cases e)
  case (FetchResolved response)
  with assms show ?thesis
    by (auto simp: fetchTracks_resolved_def getTracks_def split: sum.splits)
next
  case (GenresResolved response)
  with assms show ?thesis
    by (auto simp: fetchGenres_resolved_def split: sum.splits)
next
  case (ConfirmClick r)
  have "playingTrackId (confirmClick r s) = playingTrackId s"
    by (cases "confirmAction s")
      (simp_all add: confirmClick_def deleteTrack_settled_def deleteTrack_optimistic_def
        bulkDelete_settled_def bulkDelete_optimistic_def Let_def split: sum.splits)
  with assms ConfirmClick show ?thesis
    by (auto simp: fetch_effect_def fetchTracks_begin_def split: if_splits)
next
  case ConfirmClickAwait
  have "playingTrackId (runConfirmAction_begin (confirmAction s) s) = playingTrackId s"
    by (cases "confirmAction s")
      (simp_all add: deleteTrack_optimistic_def bulkDelete_optimistic_def Let_def)
  with assms ConfirmClickAwait show ?thesis
    by (auto split: if_splits)
next
  case (RequestSettled a r)
  have "playingTrackId (runConfirmAction_settle a r s) = playingTrackId s"
    by (cases a)
      (simp_all add: deleteTrack_settled_def bulkDelete_settled_def split: sum.splits)
  with assms RequestSettled show ?thesis
    by (auto simp: fetch_effect_def fetchTracks_begin_def split: if_splits)
next
  case RetryClick
  with assms show ?thesis
    by (auto simp: fetch_effect_def fetchTracks_begin_def retry_def split: if_splits)
qed (use assms in \<open>auto simp: handleSearchParams_def handlePageChange_def fetchTracks_begin_def
      handleSelectTrack_def handleSelectAll_def handleDeleteTrack_def handleBulkDelete_def
      handleEditTrack_def handleUpdateTrack_def handleTrackCreate_def split: if_splits\<close>)

lemma at_most_one_with_key:
  "distinct (map f xs) \<Longrightarrow> length (filter (\<lambda>x. f x = a) xs) \<le> 1"
proof (induction xs)
  case Nil
  then show ?case by simp
next
  case (Cons x xs)
  show ?case
  proof (cases "f x = a")
    case True
    with Cons.prems have "\<forall>y \<in> set xs. f y \<noteq> a" by (auto simp: image_iff)
    then have "filter (\<lambda>x. f x = a) xs = []" by (simp add: filter_empty_conv)
    with True show ?thesis by simp
  next
    case False
    with Cons show ?thesis by simp
  qed
qed

text \<open>
  C7, amended.  In every state, so in every reachable one, at most one track id is marked
  as playing, and when the ids of the page are pairwise different at most one row is.
  The pointer comes to name an id only through a press of the play button of a rendered
  row with that id whose track has an audio file at that moment (the button is disabled
  otherwise); no other event of the view sets it.  The audio player of a row is rendered
  exactly when the row is marked as playing and its track has an audio file.  The pointer
  is not reset when the list changes afterwards.
\<close>

theorem playback_pointer_gated:
  "(\<forall>t u. row_isPlaying s t \<and> row_isPlaying s u \<longrightarrow> track_id t = track_id u)
   \<and> (distinct (map track_id (tracks s)) \<longrightarrow> length (filter (row_isPlaying s) (tracks s)) \<le> 1)
   \<and> (\<forall>e s' i. step e s = Some s' \<and> playingTrackId s' = Some i \<and> playingTrackId s \<noteq> Some i
        \<longrightarrow> e = PlayClick i \<and> rows_rendered s
            \<and> (\<exists>t \<in> set (tracks s). track_id t = i \<and> truthy (audioFile t)))
   \<and> (\<forall>t. player_rendered (row_isPlaying s t) t
            = (row_isPlaying s t \<and> truthy (audioFile t)))"
proof (intro conjI allI impI)
  fix t u
  assume "row_isPlaying s t \<and> row_isPlaying s u"
  then show "track_id t = track_id u"
    by (metis row_isPlaying_def option.inject)
next
  assume d: "distinct (map track_id (tracks s))"
  show "length (filter (row_isPlaying s) (tracks s)) \<le> 1"
  proof (cases "playingTrackId s")
    case None
    then show ?thesis by (simp add: row_isPlaying_def)
  next
    case (Some a)
    then have "row_isPlaying s = (\<lambda>t. track_id t = a)"
      by (auto simp: row_isPlaying_def)
    with at_most_one_with_key [OF d, of a] show ?thesis by simp
  qed
next
  fix e s' i
  assume a: "step e s = Some s' \<and> playingTrackId s' = Some i \<and> playingTrackId s \<noteq> Some i"
  then obtain j where j: "e = PlayClick j"
    using pointer_changes_only_by_play [of e s s'] by auto
  with a have en: "rows_rendered s \<and> list_ex (\<lambda>t. track_id t = j \<and> \<not> play_disabled t) (tracks s)"
    and s': "s' = handlePlayTrack j s"
    by (auto split: if_splits)
  from s' a have "j = i"
    by (auto simp: handlePlayTrack_def split: if_splits)
  with j show "e = PlayClick i" by simp
  from en show "rows_rendered s" by simp
  from en \<open>j = i\<close> show "\<exists>t \<in> set (tracks s). track_id t = i \<and> truthy (audioFile t)"
    by (auto simp: list_ex_iff play_disabled_def)
next
  fix t
  show "player_rendered (row_isPlaying s t) t = (row_isPlaying s t \<and> truthy (audioFile t))"
    by (simp add: player_rendered_def)
qed

theorem playback_pointer_gated_witness:
  "step (PlayClick ''1'') one_audio_loaded = Some (one_audio_loaded\<lparr>playingTrackId := Some ''1''\<rparr>)
   \<and> playingTrackId (one_audio_loaded\<lparr>playingTrackId := Some ''1''\<rparr>) = Some ''1''
   \<and> playingTrackId one_audio_loaded \<noteq> Some ''1''
   \<and> rows_rendered one_audio_loaded
   \<and> (\<exists>t \<in> set (tracks one_audio_loaded). track_id t = ''1'' \<and> truthy (audioFile t))
   \<and> distinct (map track_id (tracks (one_audio_loaded\<lparr>playingTrackId := Some ''1''\<rparr>)))
   \<and> length (filter (row_isPlaying (one_audio_loaded\<lparr>playingTrackId := Some ''1''\<rparr>))
        (tracks (one_audio_loaded\<lparr>playingTrackId := Some ''1''\<rparr>))) \<le> 1
   \<and> row_isPlaying (one_audio_loaded\<lparr>playingTrackId := Some ''1''\<rparr>)
        (example_track ''1'' (Some ''one.mp3''))
   \<and> player_rendered
        (row_isPlaying (one_audio_loaded\<lparr>playingTrackId := Some ''1''\<rparr>)
          (example_track ''1'' (Some ''one.mp3'')))
        (example_track ''1'' (Some ''one.mp3''))"
proof -
  let ?playing = "one_audio_loaded\<lparr>playingTrackId := Some ''1''\<rparr>"
  let ?t = "example_track ''1'' (Some ''one.mp3'')"
  have st: "step (PlayClick ''1'') one_audio_loaded = Some ?playing"
    by (simp add: one_audio_loaded_def example_defs handler_defs)
  have now: "playingTrackId ?playing = Some ''1''"
    by simp
  have was: "playingTrackId one_audio_loaded \<noteq> Some ''1''"
    by (simp add: one_audio_loaded_def example_defs)
  have d: "distinct (map track_id (tracks ?playing))"
    by (simp add: one_audio_loaded_def example_defs)
  have marked: "row_isPlaying ?playing ?t"
    by (simp add: row_isPlaying_def example_defs)
  have audio: "truthy (audioFile ?t)"
    by (simp add: example_defs truthy_def)
  have "rows_rendered one_audio_loaded
      \<and> (\<exists>t \<in> set (tracks one_audio_loaded). track_id t = ''1'' \<and> truthy (audioFile t))"
    using playback_pointer_gated [of one_audio_loaded] st now was by blast
  moreover have "length (filter (row_isPlaying ?playing) (tracks ?playing)) \<le> 1"
    using playback_pointer_gated [of ?playing] d by blast
  moreover have "player_rendered (row_isPlaying ?playing ?t) ?t"
    using playback_pointer_gated [of ?playing] marked audio by blast
  ultimately show ?thesis
    using st now was d marked by blast
qed

end
